theory Spec2Isabelle
  imports Complex_Main
begin

section \<open>Values of JSON request bodies\<close>

text \<open>
  The handlers read the fields of \<^verbatim>\<open>req.body\<close> as plain JavaScript values. A field is
  any JSON value, or absent (\<open>JUndefined\<close>). An object is the list of its members as
  written; a later member with the same key replaces an earlier one. Numbers are taken
  as exact rationals: the rounding of IEEE doubles is outside the model.
\<close>

datatype jsval = JUndefined | JNull | JBool bool | JNum rat | JStr string
  | JArr "jsval list" | JObj "(string \<times> jsval) list"

text \<open>The operand of \<^verbatim>\<open>!x\<close>, \<^verbatim>\<open>x || y\<close>: false for undefined, null, false, 0 and the empty string.\<close>

fun truthy :: "jsval \<Rightarrow> bool" where
  "truthy JUndefined = False"
| "truthy JNull = False"
| "truthy (JBool b) = b"
| "truthy (JNum r) = (r \<noteq> 0)"
| "truthy (JStr s) = (s \<noteq> [])"
| "truthy (JArr xs) = True"
| "truthy (JObj kvs) = True"

text \<open>\<^verbatim>\<open>a || b\<close>\<close>

definition js_or :: "jsval \<Rightarrow> jsval \<Rightarrow> jsval" where
  "js_or a b = (if truthy a then a else b)"



subsection \<open>Numbers read from text\<close>

text \<open>
  A JavaScript number: not-a-number, an infinity, or a finite value. A decimal text
  whose value is at or beyond \<open>2\<^sup>1\<^sup>0\<^sup>2\<^sup>4 - 2\<^sup>9\<^sup>7\<^sup>0\<close> in magnitude reads as an infinity.
\<close>

datatype jsnumber = NaN | PosInfinity | NegInfinity | Finite rat

definition double_limit :: rat where
  "double_limit = 2 ^ 1024 - 2 ^ 970"

definition to_jsnumber :: "rat \<Rightarrow> jsnumber" where
  "to_jsnumber v =
     (if double_limit \<le> v then PosInfinity
      else if v \<le> - double_limit then NegInfinity
      else Finite v)"

text \<open>\<^verbatim>\<open>a < b\<close> on numbers: false as soon as one side is not a number.\<close>

fun js_less :: "jsnumber \<Rightarrow> jsnumber \<Rightarrow> bool" where
  "js_less NaN b = False"
| "js_less a NaN = False"
| "js_less (Finite a) (Finite b) = (a < b)"
| "js_less PosInfinity b = False"
| "js_less a NegInfinity = False"
| "js_less NegInfinity b = True"
| "js_less a PosInfinity = True"

text \<open>
  Strings are lists of bytes (UTF-8). The white space and line terminators of
  JavaScript, as byte sequences: the ASCII ones, then U+00A0, U+1680, U+2000 to U+200A,
  U+2028, U+2029, U+202F, U+205F, U+3000 and U+FEFF.
\<close>

definition white_space :: "nat list list" where
  "white_space =
     [[9], [10], [11], [12], [13], [32], [194, 160], [225, 154, 128]]
     @ map (\<lambda>b. [226, 128, b]) [128, 129, 130, 131, 132, 133, 134, 135, 136, 137, 138, 168, 169, 175]
     @ [[226, 129, 159], [227, 128, 128], [239, 187, 191]]"

text \<open>The length of the sequence of \<open>ws\<close> that the text starts with, 0 when there is none.\<close>

definition prefix_length :: "nat list list \<Rightarrow> string \<Rightarrow> nat" where
  "prefix_length ws s =
     (case find (\<lambda>w. w \<noteq> [] \<and> length w \<le> length s \<and> take (length w) (map of_char s) = w) ws of
        None \<Rightarrow> 0
      | Some w \<Rightarrow> length w)"

function skip_all :: "nat list list \<Rightarrow> string \<Rightarrow> string" where
  "skip_all ws s = (if prefix_length ws s = 0 then s else skip_all ws (drop (prefix_length ws s) s))"
  by pat_completeness auto
termination
proof (relation "measure (\<lambda>(ws, s). length s)")
  show "wf (measure (\<lambda>(ws, s). length s))" by simp
next
  fix ws :: "nat list list" and s :: string
  assume a: "prefix_length ws s \<noteq> 0"
  then obtain w where "find (\<lambda>w. w \<noteq> [] \<and> length w \<le> length s \<and> take (length w) (map of_char s) = w) ws = Some w"
    by (auto simp: prefix_length_def split: option.splits)
  then have "w \<noteq> [] \<and> length w \<le> length s" by (auto dest: find_Some_iff[THEN iffD1])
  then have "s \<noteq> []" by auto
  with a show "((ws, drop (prefix_length ws s) s), (ws, s)) \<in> measure (\<lambda>(ws, s). length s)"
    by simp
qed

definition skip_space :: "string \<Rightarrow> string" where
  "skip_space s = skip_all white_space s"

definition trim :: "string \<Rightarrow> string" where
  "trim s = rev (skip_all (map rev white_space) (rev (skip_space s)))"

definition is_digit :: "char \<Rightarrow> bool" where
  "is_digit c = (48 \<le> (of_char c :: nat) \<and> (of_char c :: nat) \<le> 57)"

fun digits_value :: "nat \<Rightarrow> string \<Rightarrow> nat" where
  "digits_value acc [] = acc"
| "digits_value acc (c # cs) = digits_value (acc * 10 + (of_char c - 48)) cs"

text \<open>The value of a digit of a literal in base 2, 8 or 16, if it is one.\<close>

definition digit_in :: "nat \<Rightarrow> char \<Rightarrow> nat option" where
  "digit_in base c =
     (let n = (of_char c :: nat);
          v = (if 48 \<le> n \<and> n \<le> 57 then n - 48
               else if 97 \<le> n \<and> n \<le> 102 then n - 87
               else if 65 \<le> n \<and> n \<le> 70 then n - 55
               else 16)
      in if v < base then Some v else None)"

fun radix_value :: "nat \<Rightarrow> nat \<Rightarrow> string \<Rightarrow> nat option" where
  "radix_value base acc [] = Some acc"
| "radix_value base acc (c # cs) =
     (case digit_in base c of None \<Rightarrow> None | Some v \<Rightarrow> radix_value base (acc * base + v) cs)"

definition scale10 :: "rat \<Rightarrow> int \<Rightarrow> rat" where
  "scale10 m ex = (if 0 \<le> ex then m * 10 ^ nat ex else m / 10 ^ nat (- ex))"

text \<open>
  \<^verbatim>\<open>parseFloat\<close> on a string: leading white space is skipped, then the longest prefix
  that is a decimal literal (sign, digits, fraction, exponent) is read and the rest
  ignored. \<open>None\<close> stands for a result that is no finite number: \<^verbatim>\<open>NaN\<close>, or an
  infinity (the literal \<^verbatim>\<open>Infinity\<close>, or a value beyond the doubles).
\<close>

definition exponent_part :: "string \<Rightarrow> int" where
  "exponent_part s =
     (if take 1 s = ''e'' \<or> take 1 s = ''E'' then
        (let t = drop 1 s;
             u = (if take 1 t = ''-'' \<or> take 1 t = ''+'' then drop 1 t else t);
             ds = takeWhile is_digit u
         in if ds = [] then 0
            else if take 1 t = ''-'' then - int (digits_value 0 ds)
            else int (digits_value 0 ds))
      else 0)"

definition parseFloat_string :: "string \<Rightarrow> rat option" where
  "parseFloat_string s =
     (let s1 = skip_space s;
          s2 = (if take 1 s1 = ''-'' \<or> take 1 s1 = ''+'' then drop 1 s1 else s1);
          ip = takeWhile is_digit s2;
          s3 = dropWhile is_digit s2;
          fp = (if take 1 s3 = ''.'' then takeWhile is_digit (drop 1 s3) else []);
          s4 = (if take 1 s3 = ''.'' then dropWhile is_digit (drop 1 s3) else s3);
          m = of_nat (digits_value 0 (ip @ fp)) / 10 ^ length fp;
          v = scale10 m (exponent_part s4)
      in if ip = [] \<and> fp = [] then None
         else (case to_jsnumber (if take 1 s1 = ''-'' then - v else v) of
                 Finite x \<Rightarrow> Some x
               | _ \<Rightarrow> None))"

text \<open>
  The number a whole string stands for (\<^verbatim>\<open>Number(s)\<close>, and what \<^verbatim>\<open><\<close> makes of a
  string operand): white space is trimmed at both ends; the empty text is 0; otherwise
  the text must be, as a whole, a hexadecimal, octal or binary integer literal, or a
  signed decimal literal or \<^verbatim>\<open>Infinity\<close>.
\<close>

definition decimal_literal :: "string \<Rightarrow> rat option" where
  "decimal_literal u =
     (let ip = takeWhile is_digit u;
          r1 = dropWhile is_digit u;
          fp = (if take 1 r1 = ''.'' then takeWhile is_digit (drop 1 r1) else []);
          r2 = (if take 1 r1 = ''.'' then dropWhile is_digit (drop 1 r1) else r1);
          t = drop 1 r2;
          ds = (if take 1 t = ''-'' \<or> take 1 t = ''+'' then drop 1 t else t);
          m = of_nat (digits_value 0 (ip @ fp)) / 10 ^ length fp
      in if ip = [] \<and> fp = [] then None
         else if r2 = [] then Some m
         else if (take 1 r2 = ''e'' \<or> take 1 r2 = ''E'') \<and> ds \<noteq> [] \<and> list_all is_digit ds
         then Some (scale10 m (if take 1 t = ''-'' then - int (digits_value 0 ds)
                               else int (digits_value 0 ds)))
         else None)"

definition StringToNumber :: "string \<Rightarrow> jsnumber" where
  "StringToNumber s =
     (let t = trim s;
          base = (if take 2 t = ''0x'' \<or> take 2 t = ''0X'' then 16
                  else if take 2 t = ''0o'' \<or> take 2 t = ''0O'' then 8
                  else if take 2 t = ''0b'' \<or> take 2 t = ''0B'' then 2 else (10::nat));
          u = (if take 1 t = ''-'' \<or> take 1 t = ''+'' then drop 1 t else t)
      in if t = [] then Finite 0
         else if base \<noteq> 10 then
           (if drop 2 t = [] then NaN
            else case radix_value base 0 (drop 2 t) of
                   None \<Rightarrow> NaN
                 | Some n \<Rightarrow> to_jsnumber (of_nat n))
         else if u = ''Infinity'' then (if take 1 t = ''-'' then NegInfinity else PosInfinity)
         else (case decimal_literal u of
                 None \<Rightarrow> NaN
               | Some v \<Rightarrow> to_jsnumber (if take 1 t = ''-'' then - v else v)))"

text \<open>
  Turning a value into a primitive calls its \<^verbatim>\<open>toString\<close>; an object parsed from JSON
  that has a member of that name has no callable one, and the conversion throws a
  TypeError. The same happens to an array holding such an object.
\<close>

fun throws_TypeError :: "jsval \<Rightarrow> bool" where
  "throws_TypeError (JObj kvs) = (''toString'' \<in> set (map fst kvs))"
| "throws_TypeError (JArr xs) = list_ex throws_TypeError xs"
| "throws_TypeError _ = False"

text \<open>
  The number a value stands for under \<^verbatim>\<open><\<close> (\<open>None\<close> when the conversion throws). An
  array is first joined to text with commas: no element gives the empty text, one element
  gives that element's text, and text with a comma in it is not a number.
\<close>

fun element_number :: "jsval \<Rightarrow> jsnumber" where
  "element_number JUndefined = Finite 0"
| "element_number JNull = Finite 0"
| "element_number (JBool b) = NaN"
| "element_number (JNum r) = Finite r"
| "element_number (JStr s) = StringToNumber s"
| "element_number (JArr []) = Finite 0"
| "element_number (JArr [x]) = element_number x"
| "element_number (JArr (x # y # zs)) = NaN"
| "element_number (JObj kvs) = NaN"

fun toNumber :: "jsval \<Rightarrow> jsnumber option" where
  "toNumber JUndefined = Some NaN"
| "toNumber JNull = Some (Finite 0)"
| "toNumber (JBool b) = Some (Finite (if b then 1 else 0))"
| "toNumber (JNum r) = Some (Finite r)"
| "toNumber (JStr s) = Some (StringToNumber s)"
| "toNumber (JArr xs) =
     (if throws_TypeError (JArr xs) then None else Some (element_number (JArr xs)))"
| "toNumber (JObj kvs) = (if throws_TypeError (JObj kvs) then None else Some NaN)"

text \<open>
  \<^verbatim>\<open>parseFloat\<close> on a body field: a number is read back from its own text; undefined,
  null, the booleans and objects give \<^verbatim>\<open>NaN\<close> (or throw); an array is read from the
  text of its first element, since the comma after it ends any literal.
\<close>

fun parseFloat :: "jsval \<Rightarrow> rat option" where
  "parseFloat (JNum r) = Some r"
| "parseFloat (JStr s) = parseFloat_string s"
| "parseFloat (JArr (x # xs)) = (if throws_TypeError (JArr (x # xs)) then None else parseFloat x)"
| "parseFloat _ = None"

subsection \<open>What Prisma accepts\<close>

text \<open>
  An Int column holds a 32-bit signed integer. A number written to it loses its
  fraction; a number that is then out of range makes the query throw (\<open>None\<close>).
\<close>

definition int32 :: "int \<Rightarrow> bool" where
  "int32 n \<longleftrightarrow> - 2147483648 \<le> n \<and> n \<le> 2147483647"

definition trunc :: "rat \<Rightarrow> int" where
  "trunc r = (if 0 \<le> r then \<lfloor>r\<rfloor> else \<lceil>r\<rceil>)"

definition prisma_Int :: "rat \<Rightarrow> int option" where
  "prisma_Int r = (if int32 (trunc r) then Some (trunc r) else None)"

text \<open>
  What a \<^verbatim>\<open>create\<close> takes for a String column, for an Int column and for a nullable
  String column; any other value makes the query throw (\<open>None\<close>).
\<close>

fun as_String :: "jsval \<Rightarrow> string option" where
  "as_String (JStr s) = Some s"
| "as_String _ = None"

fun as_Int :: "jsval \<Rightarrow> int option" where
  "as_Int (JNum r) = prisma_Int r"
| "as_Int _ = None"

fun as_String_opt :: "jsval \<Rightarrow> string option option" where
  "as_String_opt (JStr s) = Some (Some s)"
| "as_String_opt JNull = Some None"
| "as_String_opt _ = None"






text \<open>
  \<^verbatim>\<open>n + v\<close> for a stored number \<open>n\<close> and a body field \<open>v\<close>, when it is a number:
  a string, an array or an object makes it a concatenation of texts, and undefined
  makes it \<^verbatim>\<open>NaN\<close> (\<open>None\<close>; Prisma refuses both for an Int column).
\<close>

fun js_plus :: "int \<Rightarrow> jsval \<Rightarrow> rat option" where
  "js_plus n (JNum r) = Some (of_int n + r)"
| "js_plus n (JBool b) = Some (of_int n + (if b then 1 else 0))"
| "js_plus n JNull = Some (of_int n)"
| "js_plus n _ = None"

section \<open>The tables\<close>

text \<open>
  One record per table row, with the columns the route handlers read and write.
  Int columns are unbounded integers and Decimal and Float columns exact rationals.
  The \<^verbatim>\<open>createdAt\<close> columns are left out: no handler modelled here reads them.
\<close>

record user =
  u_id :: int
  u_email :: string
  u_password :: string
  u_name :: string
  u_role :: string
  u_greenPoints :: int
  u_totalCO2Saved :: rat
  u_totalPlasticSaved :: rat

record product =
  p_id :: int
  p_name :: string
  p_description :: string
  p_price :: rat
  p_imageUrl :: "string option"
  p_stock :: int
  p_category :: string
  p_isEcoFriendly :: bool
  p_carbonFootprint :: rat
  p_plasticContent :: rat

record cartItem =
  ci_id :: int
  ci_userId :: int
  ci_productId :: int
  ci_quantity :: int

record order =
  o_id :: int
  o_userId :: int
  o_total :: rat
  o_status :: string

record orderItem =
  oi_id :: int
  oi_orderId :: int
  oi_productId :: int
  oi_quantity :: int
  oi_price :: rat

text \<open>
  The store: the rows of each table in insertion order, and the next value of each
  autoincrement key.
\<close>

record db =
  users :: "user list"
  products :: "product list"
  cartItems :: "cartItem list"
  orders :: "order list"
  orderItems :: "orderItem list"
  userSeq :: int
  productSeq :: int
  cartItemSeq :: int
  orderSeq :: int
  orderItemSeq :: int

definition init_db :: db where
  "init_db = \<lparr>users = [], products = [], cartItems = [], orders = [], orderItems = [],
     userSeq = 1, productSeq = 1, cartItemSeq = 1, orderSeq = 1, orderItemSeq = 1\<rparr>"

text \<open>
  What the Prisma schema fixes and the route handlers do not: the column defaults taken
  by rows created without those columns, and what deleting a product does to the cart
  lines and order items that refer to it. The schema is not among the sources, so the
  handlers take it as a parameter.
\<close>

datatype ref_action = Cascade | Restrict

record schema =
  default_isEcoFriendly :: bool
  default_carbonFootprint :: rat
  default_plasticContent :: rat
  default_greenPoints :: int
  default_totalCO2Saved :: rat
  default_totalPlasticSaved :: rat
  cartItem_onProductDelete :: ref_action
  orderItem_onProductDelete :: ref_action

text \<open>
  A handler's answer: \<^verbatim>\<open>res.status(c).json(payload)\<close>, or
  \<^verbatim>\<open>res.status(c).json({ error: msg })\<close>. A handler returns its answer and the store it
  leaves behind.
\<close>

datatype 'a reply = Success nat 'a | Failure nat string

section \<open>Queries shared by the handlers\<close>

definition find_product :: "product list \<Rightarrow> int \<Rightarrow> product option" where
  "find_product ps pid = find (\<lambda>p. p_id p = pid) ps"

text \<open>
  \<^verbatim>\<open>include: { product: true }\<close> on rows that carry a \<^verbatim>\<open>productId\<close>: each row paired with
  its product. The relation is required, so a row without its product makes the query
  throw: \<open>None\<close>.
\<close>

fun include_product :: "('a \<Rightarrow> int) \<Rightarrow> product list \<Rightarrow> 'a list \<Rightarrow> ('a \<times> product) list option" where
  "include_product key ps [] = Some []"
| "include_product key ps (x # xs) =
     (case find_product ps (key x) of
        None \<Rightarrow> None
      | Some p \<Rightarrow> (case include_product key ps xs of
                    None \<Rightarrow> None
                  | Some rest \<Rightarrow> Some ((x, p) # rest)))"

text \<open>\<^verbatim>\<open>prisma.cartItem.findMany({ where: { userId }, include: { product: true } })\<close>\<close>

definition cart_of :: "db \<Rightarrow> int \<Rightarrow> (cartItem \<times> product) list option" where
  "cart_of d uid =
     include_product ci_productId (products d) (filter (\<lambda>ci. ci_userId ci = uid) (cartItems d))"

section \<open>Cart routes\<close>

text \<open>
  Every cart and order route runs behind \<^verbatim>\<open>authMiddleware\<close>; \<open>uid\<close> is the
  \<^verbatim>\<open>req.userId\<close> it sets. The body's \<^verbatim>\<open>productId\<close> and the path parameter \<^verbatim>\<open>:id\<close> are
  given as the integers the handler reads from them; the body's \<^verbatim>\<open>quantity\<close> is any
  JSON value. A conversion that throws is caught by the handler, which answers 500.
\<close>

text \<open>\<^verbatim>\<open>POST /cart\<close>: add an item to the cart.\<close>

definition post_cart :: "db \<Rightarrow> int \<Rightarrow> int \<Rightarrow> jsval \<Rightarrow> (cartItem \<times> product) reply \<times> db" where
  "post_cart d uid productId quantity =
     (if productId = 0 \<or> \<not> truthy quantity
      then (Failure 400 ''Invalid product or quantity'', d)
      else case toNumber quantity of
        None \<Rightarrow> (Failure 500 ''Failed to add item to cart'', d)
      | Some n \<Rightarrow>
          if js_less n (Finite 1) then (Failure 400 ''Invalid product or quantity'', d)
          else (case find_product (products d) productId of
              None \<Rightarrow> (Failure 404 ''Product not found'', d)
            | Some product \<Rightarrow>
                if js_less (Finite (of_int (p_stock product))) n
                then (Failure 400 ''Insufficient stock'', d)
                else (case find (\<lambda>ci. ci_userId ci = uid \<and> ci_productId ci = productId)
                             (cartItems d) of
                    Some existingCartItem \<Rightarrow>
                      (case Option.bind (js_plus (ci_quantity existingCartItem) quantity)
                              prisma_Int of
                         None \<Rightarrow> (Failure 500 ''Failed to add item to cart'', d)
                       | Some q \<Rightarrow>
                           (Success 201 (existingCartItem\<lparr>ci_quantity := q\<rparr>, product),
                            d\<lparr>cartItems :=
                                map (\<lambda>ci. if ci_id ci = ci_id existingCartItem
                                          then ci\<lparr>ci_quantity := q\<rparr> else ci) (cartItems d)\<rparr>))
                  | None \<Rightarrow>
                      (case as_Int quantity of
                         None \<Rightarrow> (Failure 500 ''Failed to add item to cart'', d)
                       | Some q \<Rightarrow>
                           (let cartItem = \<lparr>ci_id = cartItemSeq d, ci_userId = uid,
                                            ci_productId = productId, ci_quantity = q\<rparr>
                            in (Success 201 (cartItem, product),
                                d\<lparr>cartItems := cartItems d @ [cartItem],
                                  cartItemSeq := cartItemSeq d + 1\<rparr>))))))"




section \<open>Order routes\<close>

text \<open>An order as the order routes return it: with its items, each with its product.\<close>

type_synonym order_view = "order \<times> (orderItem \<times> product) list"

definition order_items_of :: "db \<Rightarrow> int \<Rightarrow> orderItem list" where
  "order_items_of d oid = filter (\<lambda>oi. oi_orderId oi = oid) (orderItems d)"

definition include_orderItems :: "db \<Rightarrow> order \<Rightarrow> order_view option" where
  "include_orderItems d ord =
     map_option (Pair ord)
       (include_product oi_productId (products d) (order_items_of d (o_id ord)))"

text \<open>\<^verbatim>\<open>GET /orders/:id\<close>\<close>

definition get_order :: "db \<Rightarrow> int \<Rightarrow> int \<Rightarrow> order_view reply \<times> db" where
  "get_order d uid oid =
     (case find (\<lambda>ord. o_id ord = oid \<and> o_userId ord = uid) (orders d) of
        None \<Rightarrow> (Failure 404 ''Order not found'', d)
      | Some ord \<Rightarrow>
          (case include_orderItems d ord of
             None \<Rightarrow> (Failure 500 ''Failed to fetch order'', d)
           | Some v \<Rightarrow> (Success 200 v, d)))"

text \<open>
  \<^verbatim>\<open>tx.product.update({ where: { id }, data: { stock: { decrement: q } } })\<close> and its
  \<^verbatim>\<open>increment\<close> twin: the change is relative to the stored value and made on the row
  with that id; with no such row the call throws (\<open>None\<close>). The stock is an unbounded
  integer in these two: a result beyond the 32-bit column, on which the statement would
  fail and the transaction roll back, is not modelled.
\<close>

definition decrement_stock :: "int \<Rightarrow> int \<Rightarrow> product list \<Rightarrow> product list option" where
  "decrement_stock pid q ps =
     (if find_product ps pid = None then None
      else Some (map (\<lambda>p. if p_id p = pid then p\<lparr>p_stock := p_stock p - q\<rparr> else p) ps))"

definition increment_stock :: "int \<Rightarrow> int \<Rightarrow> product list \<Rightarrow> product list option" where
  "increment_stock pid q ps =
     (if find_product ps pid = None then None
      else Some (map (\<lambda>p. if p_id p = pid then p\<lparr>p_stock := p_stock p + q\<rparr> else p) ps))"

text \<open>
  The first loop of \<^verbatim>\<open>POST /orders\<close>: the stock check and the running total, line by
  line; it leaves at the first line whose product has too little stock, with that
  product's name.
\<close>

fun check_stock :: "(cartItem \<times> product) list \<Rightarrow> rat \<Rightarrow> string + rat" where
  "check_stock [] tot = Inr tot"
| "check_stock ((item, product) # rest) tot =
     (if p_stock product < ci_quantity item then Inl (p_name product)
      else check_stock rest (tot + p_price product * of_int (ci_quantity item)))"

text \<open>
  The loop inside the transaction: for each cart line one order item, carrying the
  price read with the cart, and the decrement of the product's stock. A throwing call
  aborts the transaction (\<open>None\<close>).
\<close>

fun place_items :: "int \<Rightarrow> (cartItem \<times> product) list \<Rightarrow> db \<Rightarrow> db option" where
  "place_items oid [] d = Some d"
| "place_items oid ((item, product) # rest) d =
     (let d1 = d\<lparr>orderItems := orderItems d @
                   [\<lparr>oi_id = orderItemSeq d, oi_orderId = oid, oi_productId = ci_productId item,
                     oi_quantity = ci_quantity item, oi_price = p_price product\<rparr>],
                 orderItemSeq := orderItemSeq d + 1\<rparr>
      in case decrement_stock (ci_productId item) (ci_quantity item) (products d1) of
           None \<Rightarrow> None
         | Some ps \<Rightarrow> place_items oid rest (d1\<lparr>products := ps\<rparr>))"

text \<open>
  \<^verbatim>\<open>POST /orders\<close>: create an order from the caller's cart. An aborted transaction
  leaves the store as it was. The payload is the order read back after the commit
  (\<open>None\<close> is JSON null).
\<close>

definition post_orders :: "db \<Rightarrow> int \<Rightarrow> order_view option reply \<times> db" where
  "post_orders d uid =
     (case cart_of d uid of
        None \<Rightarrow> (Failure 500 ''Failed to create order'', d)
      | Some cart \<Rightarrow>
          if length cart = 0 then (Failure 400 ''Cart is empty'', d)
          else (case check_stock cart 0 of
              Inl nm \<Rightarrow> (Failure 400 (''Insufficient stock for '' @ nm), d)
            | Inr tot \<Rightarrow>
                (let newOrder = \<lparr>o_id = orderSeq d, o_userId = uid, o_total = tot,
                                 o_status = ''pending''\<rparr>;
                     d0 = d\<lparr>orders := orders d @ [newOrder], orderSeq := orderSeq d + 1\<rparr>
                 in case place_items (o_id newOrder) cart d0 of
                      None \<Rightarrow> (Failure 500 ''Failed to create order'', d)
                    | Some d1 \<Rightarrow>
                        (let d2 = d1\<lparr>cartItems :=
                                      filter (\<lambda>ci. ci_userId ci \<noteq> uid) (cartItems d1)\<rparr>
                         in case find (\<lambda>ord. o_id ord = o_id newOrder) (orders d2) of
                              None \<Rightarrow> (Success 201 None, d2)
                            | Some ord \<Rightarrow>
                                (case include_orderItems d2 ord of
                                   None \<Rightarrow> (Failure 500 ''Failed to create order'', d2)
                                 | Some v \<Rightarrow> (Success 201 (Some v), d2))))))"

definition validStatuses :: "string list" where
  "validStatuses = [''pending'', ''processing'', ''shipped'', ''delivered'', ''cancelled'']"

text \<open>
  \<^verbatim>\<open>PUT /orders/:id\<close>: overwrite the status of one of the caller's orders.
  \<^verbatim>\<open>validStatuses.includes(status)\<close> compares with strict equality, so only a string of
  the list passes.
\<close>

definition put_order :: "db \<Rightarrow> int \<Rightarrow> int \<Rightarrow> jsval \<Rightarrow> order_view reply \<times> db" where
  "put_order d uid oid status =
     (if \<not> truthy status \<or> status \<notin> set (map JStr validStatuses)
      then (Failure 400 ''Invalid status'', d)
      else case find (\<lambda>ord. o_id ord = oid \<and> o_userId ord = uid) (orders d) of
        None \<Rightarrow> (Failure 404 ''Order not found'', d)
      | Some existingOrder \<Rightarrow>
          (case status of
             JStr s \<Rightarrow>
               (case include_orderItems d (existingOrder\<lparr>o_status := s\<rparr>) of
                  None \<Rightarrow> (Failure 500 ''Failed to update order'', d)
                | Some v \<Rightarrow>
                    (Success 200 v,
                     d\<lparr>orders := map (\<lambda>ord. if o_id ord = oid then ord\<lparr>o_status := s\<rparr> else ord)
                                    (orders d)\<rparr>))
           | _ \<Rightarrow> (Failure 500 ''Failed to update order'', d)))"

text \<open>The loop of the cancel transaction: give every item's quantity back to its product.\<close>

fun restore_stock :: "orderItem list \<Rightarrow> product list \<Rightarrow> product list option" where
  "restore_stock [] ps = Some ps"
| "restore_stock (item # rest) ps =
     (case increment_stock (oi_productId item) (oi_quantity item) ps of
        None \<Rightarrow> None
      | Some ps' \<Rightarrow> restore_stock rest ps')"

text \<open>
  \<^verbatim>\<open>DELETE /orders/:id\<close>: cancel one of the caller's orders while it is pending. Deleting
  the order deletes its items with it (the cascade the handler relies on).
\<close>

definition delete_order :: "db \<Rightarrow> int \<Rightarrow> int \<Rightarrow> string reply \<times> db" where
  "delete_order d uid oid =
     (case find (\<lambda>ord. o_id ord = oid \<and> o_userId ord = uid) (orders d) of
        None \<Rightarrow> (Failure 404 ''Order not found'', d)
      | Some ord \<Rightarrow>
          if o_status ord \<noteq> ''pending'' then (Failure 400 ''Can only cancel pending orders'', d)
          else (case restore_stock (order_items_of d (o_id ord)) (products d) of
              None \<Rightarrow> (Failure 500 ''Failed to cancel order'', d)
            | Some ps \<Rightarrow>
                (Success 200 ''Order cancelled successfully'',
                 d\<lparr>products := ps,
                   orders := filter (\<lambda>o'. o_id o' \<noteq> oid) (orders d),
                   orderItems := filter (\<lambda>oi. oi_orderId oi \<noteq> oid) (orderItems d)\<rparr>)))"

section \<open>Product routes\<close>

record product_body =
  b_name :: jsval
  b_description :: jsval
  b_price :: jsval
  b_imageUrl :: jsval
  b_stock :: jsval
  b_category :: jsval

text \<open>
  The \<^verbatim>\<open>data\<close> argument of \<^verbatim>\<open>prisma.product.create\<close> in \<^verbatim>\<open>POST /products\<close>, as the row
  it creates; the columns the handler does not give take the schema's defaults.
\<close>

definition create_data :: "schema \<Rightarrow> int \<Rightarrow> product_body \<Rightarrow> product option" where
  "create_data sch new_id body =
     (case (as_String (b_name body), as_String (b_description body), parseFloat (b_price body),
            as_String_opt (js_or (b_imageUrl body) JNull), as_Int (js_or (b_stock body) (JNum 0)),
            as_String (b_category body)) of
        (Some nm, Some descr, Some pr, Some img, Some st, Some cat) \<Rightarrow>
          Some \<lparr>p_id = new_id, p_name = nm, p_description = descr, p_price = pr,
                p_imageUrl = img, p_stock = st, p_category = cat,
                p_isEcoFriendly = default_isEcoFriendly sch,
                p_carbonFootprint = default_carbonFootprint sch,
                p_plasticContent = default_plasticContent sch\<rparr>
      | _ \<Rightarrow> None)"

text \<open>\<^verbatim>\<open>POST /products\<close>: the handler behind \<^verbatim>\<open>adminMiddleware\<close>.\<close>

definition post_products :: "schema \<Rightarrow> db \<Rightarrow> product_body \<Rightarrow> product reply \<times> db" where
  "post_products sch d body =
     (if \<not> truthy (b_name body) \<or> \<not> truthy (b_description body) \<or> \<not> truthy (b_price body)
         \<or> \<not> truthy (b_category body)
      then (Failure 400 ''Missing required fields'', d)
      else case create_data sch (productSeq d) body of
        None \<Rightarrow> (Failure 500 ''Failed to create product'', d)
      | Some product \<Rightarrow>
          (Success 201 product,
           d\<lparr>products := products d @ [product], productSeq := productSeq d + 1\<rparr>))"






section \<open>Sustainability routes\<close>

text \<open>The decimal digits of a natural number.\<close>

fun show_nat :: "nat \<Rightarrow> string" where
  "show_nat n =
     (if n < 10 then [char_of (48 + n)]
      else show_nat (n div 10) @ [char_of (48 + n mod 10)])"

text \<open>
  \<^verbatim>\<open>x.toFixed(f)\<close> for a magnitude below \<open>10\<^sup>2\<^sup>1\<close>: the sign, then the integer nearest
  to \<open>|x| * 10\<^sup>f\<close> (the larger one at a tie), padded with zeros to at least \<open>f + 1\<close>
  digits, with a point before its last \<open>f\<close> digits.
\<close>

definition toFixed :: "rat \<Rightarrow> nat \<Rightarrow> string" where
  "toFixed x f =
     (let n = nat \<lfloor>\<bar>x\<bar> * 10 ^ f + 1 / 2\<rfloor>;
          m = show_nat n;
          padded = replicate (Suc f - length m) (CHR ''0'') @ m;
          k = length padded - f
      in (if x < 0 then ''-'' else [])
         @ (if f = 0 then padded else take k padded @ ''.'' @ drop k padded))"

record impact =
  totalCO2 :: string
  totalPlastic :: string
  ecoFriendlyItems :: nat
  totalItems :: nat
  potentialGreenPoints :: int
  ecoPercentage :: jsval

text \<open>
  The body of the \<^verbatim>\<open>forEach\<close> of \<^verbatim>\<open>GET /cart-impact\<close>, on the three running
  variables \<^verbatim>\<open>totalCO2\<close>, \<^verbatim>\<open>totalPlastic\<close> and \<^verbatim>\<open>ecoFriendlyCount\<close>.
\<close>

fun impact_step :: "cartItem \<times> product \<Rightarrow> rat \<times> rat \<times> nat \<Rightarrow> rat \<times> rat \<times> nat" where
  "impact_step (item, product) (co2, plastic, ecoFriendlyCount) =
     (co2 + p_carbonFootprint product * of_int (ci_quantity item),
      plastic + p_plasticContent product * of_int (ci_quantity item),
      if p_isEcoFriendly product then ecoFriendlyCount + 1 else ecoFriendlyCount)"

text \<open>
  \<^verbatim>\<open>GET /sustainability/cart-impact\<close>. The sums and the percentage are exact here; the
  code computes them in doubles, whose rounding can change the last digit that
  \<^verbatim>\<open>toFixed\<close> prints.
\<close>

definition get_cart_impact :: "db \<Rightarrow> int \<Rightarrow> impact reply \<times> db" where
  "get_cart_impact d uid =
     (case cart_of d uid of
        None \<Rightarrow> (Failure 500 ''Failed to calculate impact'', d)
      | Some cart \<Rightarrow>
          (case fold impact_step cart (0, 0, 0) of
             (co2, plastic, ecoFriendlyCount) \<Rightarrow>
               (Success 200
                  \<lparr>totalCO2 = toFixed co2 2,
                   totalPlastic = toFixed plastic 2,
                   ecoFriendlyItems = ecoFriendlyCount,
                   totalItems = length cart,
                   potentialGreenPoints = \<lfloor>(of_nat ecoFriendlyCount :: rat) * 10\<rfloor>,
                   ecoPercentage =
                     (if length cart > 0
                      then JStr (toFixed (of_nat ecoFriendlyCount / of_nat (length cart) * 100) 1)
                      else JNum 0)\<rparr>,
                d)))"

section \<open>Registration\<close>



section \<open>Requests in sequence\<close>




section \<open>Well-formed stores and what the claims observe\<close>

text \<open>
  What the database itself keeps true: primary keys are distinct, positive and below
  the next value of their sequence; a cart has one line per user and product; cart
  lines and order items refer to existing products and order items to existing orders.
\<close>

definition keys_ok :: "db \<Rightarrow> bool" where
  "keys_ok d \<longleftrightarrow>
     distinct (map p_id (products d))
     \<and> (\<forall>p \<in> set (products d). 0 < p_id p \<and> p_id p < productSeq d)
     \<and> distinct (map ci_id (cartItems d))
     \<and> (\<forall>ci \<in> set (cartItems d). 0 < ci_id ci \<and> ci_id ci < cartItemSeq d)
     \<and> distinct (map o_id (orders d))
     \<and> (\<forall>ord \<in> set (orders d). 0 < o_id ord \<and> o_id ord < orderSeq d)
     \<and> distinct (map oi_id (orderItems d))
     \<and> (\<forall>oi \<in> set (orderItems d). 0 < oi_id oi \<and> oi_id oi < orderItemSeq d)
     \<and> 0 < productSeq d \<and> 0 < cartItemSeq d \<and> 0 < orderSeq d \<and> 0 < orderItemSeq d"

definition cart_unique :: "db \<Rightarrow> bool" where
  "cart_unique d \<longleftrightarrow> distinct (map (\<lambda>ci. (ci_userId ci, ci_productId ci)) (cartItems d))"

definition refs_ok :: "db \<Rightarrow> bool" where
  "refs_ok d \<longleftrightarrow>
     (\<forall>ci \<in> set (cartItems d). find_product (products d) (ci_productId ci) \<noteq> None)
     \<and> (\<forall>oi \<in> set (orderItems d). find_product (products d) (oi_productId oi) \<noteq> None)
     \<and> (\<forall>oi \<in> set (orderItems d). oi_orderId oi \<in> o_id ` set (orders d))"

definition wf_db :: "db \<Rightarrow> bool" where
  "wf_db d \<longleftrightarrow> keys_ok d \<and> cart_unique d \<and> refs_ok d"








text \<open>The quantities of the cart rows of one user for one product, in table order.\<close>

definition line_quantities :: "db \<Rightarrow> int \<Rightarrow> int \<Rightarrow> int list" where
  "line_quantities d uid pid =
     map ci_quantity (filter (\<lambda>ci. ci_userId ci = uid \<and> ci_productId ci = pid) (cartItems d))"

text \<open>How many units of a product a cart holds, over all its lines.\<close>

definition purchased :: "(cartItem \<times> product) list \<Rightarrow> int \<Rightarrow> int" where
  "purchased cart pid =
     sum_list (map (\<lambda>(item, product). ci_quantity item)
                 (filter (\<lambda>(item, product). ci_productId item = pid) cart))"

text \<open>
  What a successful checkout is to leave, in the words of the specification: one order
  item per cart line with the line's product, quantity and the price read with the cart,
  numbered from the next key on; the total of a line; and the store after the checkout,
  with every stock lowered by the quantity bought, the caller's cart lines gone, and one
  pending order with the sum of the line totals.
\<close>

fun new_order_items :: "int \<Rightarrow> int \<Rightarrow> (cartItem \<times> product) list \<Rightarrow> orderItem list" where
  "new_order_items oid n [] = []"
| "new_order_items oid n ((item, product) # rest) =
     \<lparr>oi_id = n, oi_orderId = oid, oi_productId = ci_productId item,
      oi_quantity = ci_quantity item, oi_price = p_price product\<rparr>
     # new_order_items oid (n + 1) rest"

definition line_total :: "cartItem \<times> product \<Rightarrow> rat" where
  "line_total l = p_price (snd l) * of_int (ci_quantity (fst l))"

definition after_checkout :: "db \<Rightarrow> int \<Rightarrow> (cartItem \<times> product) list \<Rightarrow> db" where
  "after_checkout d uid cart =
     d\<lparr>products := map (\<lambda>p. p\<lparr>p_stock := p_stock p - purchased cart (p_id p)\<rparr>) (products d),
       cartItems := filter (\<lambda>ci. ci_userId ci \<noteq> uid) (cartItems d),
       orders := orders d @ [\<lparr>o_id = orderSeq d, o_userId = uid,
                               o_total = sum_list (map line_total cart),
                               o_status = ''pending''\<rparr>],
       orderItems := orderItems d @ new_order_items (orderSeq d) (orderItemSeq d) cart,
       orderSeq := orderSeq d + 1,
       orderItemSeq := orderItemSeq d + int (length cart)\<rparr>"

section \<open>An example store\<close>

text \<open>Product A with 5 in stock, and user 7 holding 3 of it in the cart.\<close>

definition ex_A :: product where
  "ex_A = \<lparr>p_id = 1, p_name = ''A'', p_description = ''first'', p_price = 5 / 2,
     p_imageUrl = None, p_stock = 5, p_category = ''home'', p_isEcoFriendly = True,
     p_carbonFootprint = 1 / 10, p_plasticContent = 2\<rparr>"

definition ex_db :: db where
  "ex_db = \<lparr>users = [], products = [ex_A],
     cartItems = [\<lparr>ci_id = 1, ci_userId = 7, ci_productId = 1, ci_quantity = 3\<rparr>],
     orders = [], orderItems = [],
     userSeq = 8, productSeq = 2, cartItemSeq = 2, orderSeq = 1, orderItemSeq = 1\<rparr>"

text \<open>The same store when only 2 of A are left.\<close>

definition ex_low :: db where
  "ex_low = ex_db\<lparr>products := [ex_A\<lparr>p_stock := 2\<rparr>]\<rparr>"

text \<open>A store with one shipped order of user 7, and a schema and a request body.\<close>

definition ex_shipped :: db where
  "ex_shipped = \<lparr>users = [], products = [ex_A\<lparr>p_stock := 2\<rparr>], cartItems = [],
     orders = [\<lparr>o_id = 1, o_userId = 7, o_total = 15 / 2, o_status = ''shipped''\<rparr>],
     orderItems = [\<lparr>oi_id = 1, oi_orderId = 1, oi_productId = 1, oi_quantity = 3,
                    oi_price = 5 / 2\<rparr>],
     userSeq = 8, productSeq = 2, cartItemSeq = 2, orderSeq = 2, orderItemSeq = 2\<rparr>"

definition ex_schema :: schema where
  "ex_schema = \<lparr>default_isEcoFriendly = False, default_carbonFootprint = 0,
     default_plasticContent = 0, default_greenPoints = 0, default_totalCO2Saved = 0,
     default_totalPlasticSaved = 0, cartItem_onProductDelete = Cascade,
     orderItem_onProductDelete = Restrict\<rparr>"

definition ex_body :: product_body where
  "ex_body = \<lparr>b_name = JStr ''Mug'', b_description = JStr ''A mug'', b_price = JNum 4,
     b_imageUrl = JUndefined, b_stock = JUndefined, b_category = JStr ''home''\<rparr>"

text \<open>User 7 with five cart lines, the first two for eco-flagged products.\<close>

definition ex_cart5 :: db where
  "ex_cart5 = \<lparr>users = [\<lparr>u_id = 7, u_email = ''u@example.org'', u_password = ''h'', u_name = ''U'',
                 u_role = ''user'', u_greenPoints = 30, u_totalCO2Saved = 1, u_totalPlasticSaved = 2\<rparr>],
     products = map (\<lambda>i. ex_A\<lparr>p_id := i, p_isEcoFriendly := (i \<le> 2)\<rparr>) [1, 2, 3, 4, 5],
     cartItems = map (\<lambda>i. \<lparr>ci_id = i, ci_userId = 7, ci_productId = i, ci_quantity = 1\<rparr>)
                   [1, 2, 3, 4, 5],
     orders = [], orderItems = [],
     userSeq = 8, productSeq = 6, cartItemSeq = 6, orderSeq = 1, orderItemSeq = 1\<rparr>"



text \<open>
  The example store when the stock of A fills the Int column; and a run in which user 7
  lowers a cart line of 3 by 8 with an operation object, checks out, user 8 buys all 10
  that are then in stock, and user 7 cancels.
\<close>

definition ex_big :: db where
  "ex_big = ex_db\<lparr>products := [ex_A\<lparr>p_stock := 2147483647\<rparr>]\<rparr>"


section \<open>Adding to the cart\<close>

declare show_nat.simps [simp del]

lemma find_filter_single:
  "filter P xs = [e] \<Longrightarrow> find P xs = Some e"
  by (induction xs) (auto split: if_splits)

lemma find_filter_none:
  "filter P xs = [] \<Longrightarrow> find P xs = None"
  by (induction xs) (auto split: if_splits)

lemma find_Some_mem: "find P xs = Some e \<Longrightarrow> e \<in> set xs \<and> P e"
  by (induction xs) (auto split: if_splits)

lemma distinct_key_eq:
  "distinct (map k xs) \<Longrightarrow> a \<in> set xs \<Longrightarrow> b \<in> set xs \<Longrightarrow> k a = k b \<Longrightarrow> a = b"
  by (meson distinct_map inj_onD)

lemma filter_bump_commute:
  "filter (\<lambda>ci. ci_userId ci = u \<and> ci_productId ci = p)
     (map (\<lambda>ci. if ci_id ci = i then ci\<lparr>ci_quantity := q\<rparr> else ci) xs)
   = map (\<lambda>ci. if ci_id ci = i then ci\<lparr>ci_quantity := q\<rparr> else ci)
       (filter (\<lambda>ci. ci_userId ci = u \<and> ci_productId ci = p) xs)"
  by (induction xs) auto

lemma bump_line_same:
  assumes "filter (\<lambda>ci. ci_userId ci = uid \<and> ci_productId ci = pid) xs = [e]"
  shows "map ci_quantity (filter (\<lambda>ci. ci_userId ci = uid \<and> ci_productId ci = pid)
           (map (\<lambda>ci. if ci_id ci = ci_id e then ci\<lparr>ci_quantity := q\<rparr> else ci) xs)) = [q]"
  using assms by (simp add: filter_bump_commute)

lemma bump_line_other:
  assumes "distinct (map ci_id xs)" "e \<in> set xs" "(ci_userId e, ci_productId e) \<noteq> (u, p)"
  shows "filter (\<lambda>ci. ci_userId ci = u \<and> ci_productId ci = p)
           (map (\<lambda>ci. if ci_id ci = ci_id e then ci\<lparr>ci_quantity := q\<rparr> else ci) xs)
         = filter (\<lambda>ci. ci_userId ci = u \<and> ci_productId ci = p) xs"
proof -
  have "map (\<lambda>ci. if ci_id ci = ci_id e then ci\<lparr>ci_quantity := q\<rparr> else ci)
          (filter (\<lambda>ci. ci_userId ci = u \<and> ci_productId ci = p) xs)
        = filter (\<lambda>ci. ci_userId ci = u \<and> ci_productId ci = p) xs"
  proof (rule map_idI)
    fix ci assume "ci \<in> set (filter (\<lambda>ci. ci_userId ci = u \<and> ci_productId ci = p) xs)"
    then have m: "ci \<in> set xs" and P: "ci_userId ci = u \<and> ci_productId ci = p" by auto
    have "ci_id ci \<noteq> ci_id e"
    proof
      assume "ci_id ci = ci_id e"
      with assms(1,2) m have "ci = e" by (rule_tac distinct_key_eq[of ci_id xs]) auto
      with P assms(3) show False by simp
    qed
    then show "(if ci_id ci = ci_id e then ci\<lparr>ci_quantity := q\<rparr> else ci) = ci" by simp
  qed
  then show ?thesis by (simp add: filter_bump_commute)
qed

lemma unique_pair_filter:
  "distinct (map k xs) \<Longrightarrow> filter (\<lambda>x. k x = v) xs = [] \<or> (\<exists>e. filter (\<lambda>x. k x = v) xs = [e])"
proof (induction xs)
  case Nil then show ?case by simp
next
  case (Cons x xs)
  show ?case
  proof (cases "k x = v")
    case True
    with Cons.prems have "v \<notin> k ` set xs" by simp
    then have "filter (\<lambda>x. k x = v) xs = []" by (auto simp: filter_empty_conv)
    with True show ?thesis by simp
  next
    case False
    with Cons show ?thesis by simp
  qed
qed

lemma cart_line_cases:
  assumes "cart_unique d"
  shows "filter (\<lambda>ci. ci_userId ci = uid \<and> ci_productId ci = pid) (cartItems d) = []
       \<or> (\<exists>e. filter (\<lambda>ci. ci_userId ci = uid \<and> ci_productId ci = pid) (cartItems d) = [e])"
  using unique_pair_filter[of "\<lambda>ci. (ci_userId ci, ci_productId ci)" "cartItems d" "(uid, pid)"] assms
  by (simp add: cart_unique_def)

lemma trunc_of_int [simp]: "trunc (of_int n) = n"
  by (simp add: trunc_def)

lemma trunc_of_int_sum [simp]: "trunc (of_int m + of_int n) = m + n"
  using trunc_of_int[of "m + n"] by (simp del: trunc_of_int)

lemma prisma_Int_of_int: "int32 n \<Longrightarrow> prisma_Int (of_int n) = Some n"
  by (simp add: prisma_Int_def)

lemma prisma_Int_of_int_sum: "int32 (m + n) \<Longrightarrow> prisma_Int (of_int m + of_int n) = Some (m + n)"
  by (simp add: prisma_Int_def)

lemma post_cart_new:
  assumes "find_product (products d) productId = Some product" "productId \<noteq> 0"
    "1 \<le> quantity" "quantity \<le> p_stock product" "int32 quantity"
    "filter (\<lambda>ci. ci_userId ci = uid \<and> ci_productId ci = productId) (cartItems d) = []"
  shows "post_cart d uid productId (JNum (of_int quantity)) =
           (Success 201 (\<lparr>ci_id = cartItemSeq d, ci_userId = uid, ci_productId = productId,
                           ci_quantity = quantity\<rparr>, product),
            d\<lparr>cartItems := cartItems d @ [\<lparr>ci_id = cartItemSeq d, ci_userId = uid,
                  ci_productId = productId, ci_quantity = quantity\<rparr>],
              cartItemSeq := cartItemSeq d + 1\<rparr>)"
  using assms by (simp add: post_cart_def find_filter_none Let_def prisma_Int_of_int)

lemma post_cart_existing:
  assumes "find_product (products d) productId = Some product" "productId \<noteq> 0"
    "1 \<le> quantity" "quantity \<le> p_stock product" "int32 (ci_quantity e + quantity)"
    "filter (\<lambda>ci. ci_userId ci = uid \<and> ci_productId ci = productId) (cartItems d) = [e]"
  shows "post_cart d uid productId (JNum (of_int quantity)) =
           (Success 201 (e\<lparr>ci_quantity := ci_quantity e + quantity\<rparr>, product),
            d\<lparr>cartItems := map (\<lambda>ci. if ci_id ci = ci_id e
                                     then ci\<lparr>ci_quantity := ci_quantity e + quantity\<rparr> else ci)
                               (cartItems d)\<rparr>)"
  using assms by (simp add: post_cart_def find_filter_single Let_def prisma_Int_of_int_sum)

lemma find_product_Some:
  "find_product ps pid = Some p \<Longrightarrow> p \<in> set ps \<and> p_id p = pid"
  unfolding find_product_def by (induction ps) (auto split: if_splits)

lemma wf_product_id_nonzero:
  assumes "wf_db d" "find_product (products d) pid = Some p"
  shows "pid \<noteq> 0"
  using find_product_Some[OF assms(2)] assms(1) by (auto simp: wf_db_def keys_ok_def)

subsection \<open>The example store\<close>

lemma wf_ex_db: "wf_db ex_db"
  by (simp add: wf_db_def keys_ok_def cart_unique_def refs_ok_def ex_db_def ex_A_def
      find_product_def)

text \<open>
  Claim C7, as stated, fails in two ways. With the stock of A at 2147483647 and 3 of it
  in the caller's cart, adding 2147483647 more passes the stock check, but the sum does
  not fit the Int column: the handler answers 500 and the line stays at 3. And a
  quantity of 1.5 for a product not yet in the cart is stored as 1, not as the
  requested quantity.
\<close>

theorem cart_add_beyond_int_column:
  "find_product (products ex_big) 1 = Some (ex_A\<lparr>p_stock := 2147483647\<rparr>)
   \<and> line_quantities ex_big 7 1 = [3]
   \<and> post_cart ex_big 7 1 (JNum 2147483647) = (Failure 500 ''Failed to add item to cart'', ex_big)
   \<and> line_quantities ex_db 8 1 = []
   \<and> line_quantities (snd (post_cart ex_db 8 1 (JNum (3 / 2)))) 8 1 = [1]"
proof -
  have "\<lfloor>3 / 2 :: rat\<rfloor> = 1" by (rule floor_unique) simp_all
  then show ?thesis
    by (simp add: post_cart_def ex_big_def ex_db_def ex_A_def find_product_def line_quantities_def
        prisma_Int_def int32_def trunc_def Let_def)
qed

text \<open>
  Claim C7, amended. Adding a product to the cart with an integer quantity of at least
  1, for an existing product whose stock covers that quantity, when the quantity the
  caller then holds fits the 32-bit Int column, answers 201 with the caller's line for
  the product. If the caller already had a line for it, that line's quantity grows by
  the requested quantity and the cart has no more rows than before; otherwise the cart
  gains one row, with exactly the requested quantity. The lines of every other user and
  product keep their quantities.
\<close>

theorem cart_add_upserts:
  assumes wf: "wf_db d"
    and ex: "find_product (products d) productId = Some product"
    and q: "1 \<le> quantity"
    and st: "quantity \<le> p_stock product"
    and fits: "int32 (sum_list (line_quantities d uid productId) + quantity)"
    and res: "d' = snd (post_cart d uid productId (JNum (of_int quantity)))"
  shows "(\<exists>line. fst (post_cart d uid productId (JNum (of_int quantity)))
                = Success 201 (line, product)
            \<and> ci_userId line = uid \<and> ci_productId line = productId
            \<and> line_quantities d' uid productId = [ci_quantity line])
       \<and> (\<forall>q0. line_quantities d uid productId = [q0]
              \<longrightarrow> line_quantities d' uid productId = [q0 + quantity]
                  \<and> length (cartItems d') = length (cartItems d))
       \<and> (line_quantities d uid productId = []
              \<longrightarrow> line_quantities d' uid productId = [quantity]
                  \<and> length (cartItems d') = length (cartItems d) + 1)
       \<and> (\<forall>u p. (u, p) \<noteq> (uid, productId)
              \<longrightarrow> line_quantities d' u p = line_quantities d u p)"
proof -
  let ?P = "\<lambda>ci. ci_userId ci = uid \<and> ci_productId ci = productId"
  let ?req = "JNum (of_int quantity)"
  have pid: "productId \<noteq> 0" by (rule wf_product_id_nonzero[OF wf ex])
  have keys: "distinct (map ci_id (cartItems d))" and uniq: "cart_unique d"
    using wf by (simp_all add: wf_db_def keys_ok_def)
  from cart_line_cases[OF uniq, of uid productId]
  consider (new) "filter ?P (cartItems d) = []" | (old) e where "filter ?P (cartItems d) = [e]"
    by blast
  then show ?thesis
  proof cases
    case new
    from fits new have "int32 quantity" by (simp add: line_quantities_def)
    note r = post_cart_new[OF ex pid q st this new]
    show ?thesis using new unfolding res r
      by (auto simp: line_quantities_def)
  next
    case (old e)
    from fits old have "int32 (ci_quantity e + quantity)" by (simp add: line_quantities_def)
    note r = post_cart_existing[OF ex pid q st this old]
    have "e \<in> set (filter ?P (cartItems d))" using old by simp
    then have mem: "e \<in> set (cartItems d)" and Pe: "ci_userId e = uid" "ci_productId e = productId"
      by auto
    have other: "line_quantities (snd (post_cart d uid productId ?req)) u p
        = line_quantities d u p" if ne: "(u, p) \<noteq> (uid, productId)" for u p
    proof -
      have "(ci_userId e, ci_productId e) \<noteq> (u, p)" using Pe ne by auto
      from bump_line_other[OF keys mem this] show ?thesis
        unfolding r line_quantities_def by simp
    qed
    have same: "line_quantities (snd (post_cart d uid productId ?req)) uid productId
        = [ci_quantity e + quantity]"
      unfolding r line_quantities_def using bump_line_same[OF old] by simp
    show ?thesis unfolding res using other same old Pe
      by (simp add: r line_quantities_def)
  qed
qed

theorem cart_add_upserts_witness:
  "wf_db ex_db \<and> line_quantities ex_db 7 1 = [3]
   \<and> line_quantities (snd (post_cart ex_db 7 1 (JNum 2))) 7 1 = [5]
   \<and> line_quantities ex_db 8 1 = []
   \<and> line_quantities (snd (post_cart ex_db 8 1 (JNum 2))) 8 1 = [2]"
proof -
  have f: "find_product (products ex_db) 1 = Some ex_A"
    by (simp add: ex_db_def find_product_def ex_A_def)
  have s: "(2::int) \<le> p_stock ex_A" by (simp add: ex_A_def)
  have l7: "line_quantities ex_db 7 1 = [3]" and l8: "line_quantities ex_db 8 1 = []"
    by (simp_all add: line_quantities_def ex_db_def)
  have f7: "int32 (sum_list (line_quantities ex_db 7 1) + 2)"
    and f8: "int32 (sum_list (line_quantities ex_db 8 1) + 2)"
    by (simp_all add: l7 l8 int32_def)
  from cart_add_upserts[OF wf_ex_db f _ s f7 refl] l7
  have a: "line_quantities (snd (post_cart ex_db 7 1 (JNum 2))) 7 1 = [5]" by simp
  from cart_add_upserts[OF wf_ex_db f _ s f8 refl] l8
  have b: "line_quantities (snd (post_cart ex_db 8 1 (JNum 2))) 8 1 = [2]" by simp
  from wf_ex_db l7 l8 a b show ?thesis by simp
qed



section \<open>Checkout and cancellation refused\<close>

lemma check_stock_short:
  "\<exists>(item, product) \<in> set cart. p_stock product < ci_quantity item \<Longrightarrow>
   \<exists>(item, product) \<in> set cart. p_stock product < ci_quantity item
      \<and> check_stock cart t = Inl (p_name product)"
proof (induction cart arbitrary: t)
  case Nil then show ?case by simp
next
  case (Cons x cart)
  obtain item product where x: "x = (item, product)" by (cases x)
  show ?case
  proof (cases "p_stock product < ci_quantity item")
    case True
    then show ?thesis using x by simp
  next
    case False
    with Cons.prems x have "\<exists>(item, product) \<in> set cart. p_stock product < ci_quantity item"
      by auto
    from Cons.IH[OF this, of "t + p_price product * of_int (ci_quantity item)"] False x
    show ?thesis by auto
  qed
qed

text \<open>
  Claim C2. Checkout with an empty cart is answered 400 \<open>Cart is empty\<close>; checkout
  with a cart in which some line asks for more than its product's stock is answered 400
  \<open>Insufficient stock for\<close> followed by the name of such a product. In both cases the
  store that is left is the store before the call: no stock changed, no order created,
  no cart line deleted.
\<close>

theorem checkout_rejects_without_effect:
  "(filter (\<lambda>ci. ci_userId ci = uid) (cartItems d) = []
      \<longrightarrow> post_orders d uid = (Failure 400 ''Cart is empty'', d))
   \<and> (\<forall>cart. cart_of d uid = Some cart
          \<and> (\<exists>(item, product) \<in> set cart. p_stock product < ci_quantity item)
      \<longrightarrow> (\<exists>(item, product) \<in> set cart. p_stock product < ci_quantity item
            \<and> post_orders d uid
                = (Failure 400 (''Insufficient stock for '' @ p_name product), d)))"
proof (intro conjI impI allI)
  assume "filter (\<lambda>ci. ci_userId ci = uid) (cartItems d) = []"
  then show "post_orders d uid = (Failure 400 ''Cart is empty'', d)"
    by (simp add: post_orders_def cart_of_def)
next
  fix cart
  assume a: "cart_of d uid = Some cart
     \<and> (\<exists>(item, product) \<in> set cart. p_stock product < ci_quantity item)"
  then have ne: "length cart \<noteq> 0" by auto
  from check_stock_short[of cart 0] a
  obtain item product where m: "(item, product) \<in> set cart"
      and lt: "p_stock product < ci_quantity item"
      and cs: "check_stock cart 0 = Inl (p_name product)" by blast
  have "post_orders d uid = (Failure 400 (''Insufficient stock for '' @ p_name product), d)"
    using a ne cs by (simp add: post_orders_def)
  with m lt show "\<exists>(item, product) \<in> set cart. p_stock product < ci_quantity item
            \<and> post_orders d uid
                = (Failure 400 (''Insufficient stock for '' @ p_name product), d)"
    by blast
qed

text \<open>
  Claim C5. Cancelling an order that does not exist or belongs to another user is
  answered 404 \<open>Order not found\<close>, and cancelling an order whose status is not
  \<open>pending\<close> is answered 400 \<open>Can only cancel pending orders\<close>; in both cases the store
  is left as it was, so no stock is changed and the order is not deleted.
\<close>

theorem cancel_rejects_without_effect:
  "(\<not> (\<exists>ord \<in> set (orders d). o_id ord = oid \<and> o_userId ord = uid)
      \<longrightarrow> delete_order d uid oid = (Failure 404 ''Order not found'', d))
   \<and> (\<forall>ord. find (\<lambda>ord. o_id ord = oid \<and> o_userId ord = uid) (orders d) = Some ord
          \<and> o_status ord \<noteq> ''pending''
      \<longrightarrow> delete_order d uid oid = (Failure 400 ''Can only cancel pending orders'', d))"
proof (intro conjI impI allI)
  assume "\<not> (\<exists>ord \<in> set (orders d). o_id ord = oid \<and> o_userId ord = uid)"
  then have "find (\<lambda>ord. o_id ord = oid \<and> o_userId ord = uid) (orders d) = None"
    by (simp add: find_None_iff)
  then show "delete_order d uid oid = (Failure 404 ''Order not found'', d)"
    by (simp add: delete_order_def)
next
  fix ord
  assume "find (\<lambda>ord. o_id ord = oid \<and> o_userId ord = uid) (orders d) = Some ord
          \<and> o_status ord \<noteq> ''pending''"
  then show "delete_order d uid oid = (Failure 400 ''Can only cancel pending orders'', d)"
    by (simp add: delete_order_def)
qed

lemma include_product_total:
  "\<forall>x \<in> set xs. find_product ps (key x) \<noteq> None \<Longrightarrow> \<exists>r. include_product key ps xs = Some r"
  by (induction xs) auto

text \<open>
  Claim C6. A status update with any of the five values is accepted for an order of the
  caller whatever its current status, and writes that value into the status of the
  order with that id; a value outside the five (or no value) is answered 400
  \<open>Invalid status\<close>. Whatever the request, products, order items, cart lines and users
  are as before, and so are the id, owner and total of every order.
\<close>

theorem status_update_frame:
  "(\<forall>s existing. s \<in> set validStatuses \<and> refs_ok d
        \<and> find (\<lambda>ord. o_id ord = oid \<and> o_userId ord = uid) (orders d) = Some existing
      \<longrightarrow> (\<exists>v. put_order d uid oid (JStr s)
             = (Success 200 v,
                d\<lparr>orders := map (\<lambda>ord. if o_id ord = oid then ord\<lparr>o_status := s\<rparr> else ord)
                               (orders d)\<rparr>)))
   \<and> (status \<notin> JStr ` set validStatuses
      \<longrightarrow> put_order d uid oid status = (Failure 400 ''Invalid status'', d))
   \<and> products (snd (put_order d uid oid status)) = products d
   \<and> orderItems (snd (put_order d uid oid status)) = orderItems d
   \<and> cartItems (snd (put_order d uid oid status)) = cartItems d
   \<and> users (snd (put_order d uid oid status)) = users d
   \<and> map (\<lambda>ord. (o_id ord, o_userId ord, o_total ord)) (orders (snd (put_order d uid oid status)))
     = map (\<lambda>ord. (o_id ord, o_userId ord, o_total ord)) (orders d)"
proof (intro conjI impI allI)
  fix s existing
  assume a: "s \<in> set validStatuses \<and> refs_ok d
        \<and> find (\<lambda>ord. o_id ord = oid \<and> o_userId ord = uid) (orders d) = Some existing"
  then have ok: "truthy (JStr s)" "JStr s \<in> set (map JStr validStatuses)"
    by (auto simp: validStatuses_def)
  have "\<forall>x \<in> set (order_items_of d (o_id (existing\<lparr>o_status := s\<rparr>))).
          find_product (products d) (oi_productId x) \<noteq> None"
    using a by (auto simp: refs_ok_def order_items_of_def)
  from include_product_total[OF this]
  obtain v where "include_orderItems d (existing\<lparr>o_status := s\<rparr>) = Some v"
    by (auto simp: include_orderItems_def)
  then show "\<exists>v. put_order d uid oid (JStr s)
             = (Success 200 v,
                d\<lparr>orders := map (\<lambda>ord. if o_id ord = oid then ord\<lparr>o_status := s\<rparr> else ord)
                               (orders d)\<rparr>)"
    using a ok unfolding put_order_def by simp
next
  assume "status \<notin> JStr ` set validStatuses"
  then show "put_order d uid oid status = (Failure 400 ''Invalid status'', d)"
    by (simp add: put_order_def)
next
  show "products (snd (put_order d uid oid status)) = products d"
    by (simp add: put_order_def split: option.splits jsval.splits)
  show "orderItems (snd (put_order d uid oid status)) = orderItems d"
    by (simp add: put_order_def split: option.splits jsval.splits)
  show "cartItems (snd (put_order d uid oid status)) = cartItems d"
    by (simp add: put_order_def split: option.splits jsval.splits)
  show "users (snd (put_order d uid oid status)) = users d"
    by (simp add: put_order_def split: option.splits jsval.splits)
  show "map (\<lambda>ord. (o_id ord, o_userId ord, o_total ord)) (orders (snd (put_order d uid oid status)))
     = map (\<lambda>ord. (o_id ord, o_userId ord, o_total ord)) (orders d)"
    by (simp add: put_order_def o_def split: option.splits jsval.splits)
qed

text \<open>
  Claim C10. Product creation tests its required fields by truthiness: a body whose
  price is the number 0 is answered 400 \<open>Missing required fields\<close> and nothing is
  created; a body with non-empty name, description and category, a non-zero price, an
  image URL that is a string or missing, and no stock creates the product with stock 0.
\<close>

theorem product_create_truthiness:
  "(b_price body = JNum 0
      \<longrightarrow> post_products sch d body = (Failure 400 ''Missing required fields'', d))
   \<and> (\<forall>nm descr r cat img.
        b_name body = JStr nm \<and> nm \<noteq> [] \<and> b_description body = JStr descr \<and> descr \<noteq> []
        \<and> b_price body = JNum r \<and> r \<noteq> 0 \<and> b_category body = JStr cat \<and> cat \<noteq> []
        \<and> as_String_opt (js_or (b_imageUrl body) JNull) = Some img
        \<and> b_stock body = JUndefined
      \<longrightarrow> (\<exists>p. post_products sch d body
               = (Success 201 p, d\<lparr>products := products d @ [p], productSeq := productSeq d + 1\<rparr>)
             \<and> p_stock p = 0 \<and> p_name p = nm \<and> p_price p = r \<and> p_imageUrl p = img))"
  by (auto simp: post_products_def create_data_def js_or_def prisma_Int_def int32_def trunc_def)

theorem checkout_rejects_without_effect_witness:
  "post_orders ex_db 8 = (Failure 400 ''Cart is empty'', ex_db)
   \<and> post_orders ex_low 7 = (Failure 400 ''Insufficient stock for A'', ex_low)"
proof -
  have e: "filter (\<lambda>ci. ci_userId ci = 8) (cartItems ex_db) = []"
    by (simp add: ex_db_def)
  have c: "cart_of ex_low 7
      = Some [(\<lparr>ci_id = 1, ci_userId = 7, ci_productId = 1, ci_quantity = 3\<rparr>,
               ex_A\<lparr>p_stock := 2\<rparr>)]"
    by (simp add: cart_of_def ex_low_def ex_db_def find_product_def ex_A_def)
  from checkout_rejects_without_effect[of 8 ex_db] e
  have a: "post_orders ex_db 8 = (Failure 400 ''Cart is empty'', ex_db)" by simp
  from checkout_rejects_without_effect[of 7 ex_low] c
  have b: "post_orders ex_low 7 = (Failure 400 ''Insufficient stock for A'', ex_low)"
    by (simp add: ex_A_def)
  from a b show ?thesis by simp
qed

theorem cancel_rejects_without_effect_witness:
  "delete_order ex_shipped 7 5 = (Failure 404 ''Order not found'', ex_shipped)
   \<and> delete_order ex_shipped 8 1 = (Failure 404 ''Order not found'', ex_shipped)
   \<and> delete_order ex_shipped 7 1 = (Failure 400 ''Can only cancel pending orders'', ex_shipped)"
proof -
  have f: "find (\<lambda>ord. o_id ord = 1 \<and> o_userId ord = 7) (orders ex_shipped)
      = Some \<lparr>o_id = 1, o_userId = 7, o_total = 15 / 2, o_status = ''shipped''\<rparr>"
    by (simp add: ex_shipped_def)
  from cancel_rejects_without_effect[of ex_shipped 5 7]
  have a: "delete_order ex_shipped 7 5 = (Failure 404 ''Order not found'', ex_shipped)"
    by (simp add: ex_shipped_def)
  from cancel_rejects_without_effect[of ex_shipped 1 8]
  have b: "delete_order ex_shipped 8 1 = (Failure 404 ''Order not found'', ex_shipped)"
    by (simp add: ex_shipped_def)
  from cancel_rejects_without_effect[of ex_shipped 1 7] f
  have c: "delete_order ex_shipped 7 1
      = (Failure 400 ''Can only cancel pending orders'', ex_shipped)"
    by simp
  from a b c show ?thesis by simp
qed

theorem status_update_frame_witness:
  "(\<exists>v. put_order ex_shipped 7 1 (JStr ''cancelled'')
       = (Success 200 v,
          ex_shipped\<lparr>orders := [\<lparr>o_id = 1, o_userId = 7, o_total = 15 / 2,
                                  o_status = ''cancelled''\<rparr>]\<rparr>))
   \<and> put_order ex_shipped 7 1 (JStr ''refunded'') = (Failure 400 ''Invalid status'', ex_shipped)
   \<and> put_order ex_shipped 7 1 JUndefined = (Failure 400 ''Invalid status'', ex_shipped)
   \<and> products (snd (put_order ex_shipped 7 1 (JStr ''cancelled''))) = [ex_A\<lparr>p_stock := 2\<rparr>]"
proof -
  have f: "find (\<lambda>ord. o_id ord = 1 \<and> o_userId ord = 7) (orders ex_shipped)
      = Some \<lparr>o_id = 1, o_userId = 7, o_total = 15 / 2, o_status = ''shipped''\<rparr>"
    by (simp add: ex_shipped_def)
  have r: "refs_ok ex_shipped"
    by (simp add: refs_ok_def ex_shipped_def find_product_def ex_A_def)
  have v: "''cancelled'' \<in> set validStatuses" by (simp add: validStatuses_def)
  have o: "map (\<lambda>ord. if o_id ord = 1 then ord\<lparr>o_status := ''cancelled''\<rparr> else ord)
             (orders ex_shipped)
           = [\<lparr>o_id = 1, o_userId = 7, o_total = 15 / 2, o_status = ''cancelled''\<rparr>]"
    by (simp add: ex_shipped_def)
  from status_update_frame[of ex_shipped 1 7 "JStr ''cancelled''"] f r v o
  have a: "\<exists>v. put_order ex_shipped 7 1 (JStr ''cancelled'')
       = (Success 200 v,
          ex_shipped\<lparr>orders := [\<lparr>o_id = 1, o_userId = 7, o_total = 15 / 2,
                                  o_status = ''cancelled''\<rparr>]\<rparr>)"
    and p: "products (snd (put_order ex_shipped 7 1 (JStr ''cancelled''))) = products ex_shipped"
    by auto
  from status_update_frame[of ex_shipped 1 7 "JStr ''refunded''"]
  have b: "put_order ex_shipped 7 1 (JStr ''refunded'') = (Failure 400 ''Invalid status'', ex_shipped)"
    by (simp add: validStatuses_def)
  from status_update_frame[of ex_shipped 1 7 JUndefined]
  have c: "put_order ex_shipped 7 1 JUndefined = (Failure 400 ''Invalid status'', ex_shipped)"
    by (simp add: validStatuses_def)
  from a b c p show ?thesis by (simp add: ex_shipped_def)
qed

theorem product_create_truthiness_witness:
  "post_products ex_schema init_db (ex_body\<lparr>b_price := JNum 0\<rparr>)
     = (Failure 400 ''Missing required fields'', init_db)
   \<and> (\<exists>p. post_products ex_schema init_db ex_body
          = (Success 201 p, init_db\<lparr>products := [p], productSeq := 2\<rparr>) \<and> p_stock p = 0)"
proof -
  from product_create_truthiness[of "ex_body\<lparr>b_price := JNum 0\<rparr>" ex_schema init_db]
  have a: "post_products ex_schema init_db (ex_body\<lparr>b_price := JNum 0\<rparr>)
     = (Failure 400 ''Missing required fields'', init_db)" by simp
  from product_create_truthiness[of ex_body ex_schema init_db]
  have b: "\<exists>p. post_products ex_schema init_db ex_body
          = (Success 201 p, init_db\<lparr>products := [p], productSeq := 2\<rparr>) \<and> p_stock p = 0"
    by (auto simp: ex_body_def init_db_def js_or_def)
  from a b show ?thesis by simp
qed

section \<open>Cart impact\<close>

lemma fold_impact_count:
  "snd (snd (fold impact_step cart (a, b, n)))
     = n + length (filter (\<lambda>(item, product). p_isEcoFriendly product) cart)"
  by (induction cart arbitrary: a b n) auto

lemma toFixed_40: "toFixed 40 (Suc 0) = ''40.0''"
  by code_simp

text \<open>
  Claim C8. For a cart with exactly 2 eco-flagged lines and 3 other lines, the
  cart-impact route reports 2 eco-friendly items, 5 items in total, the percentage
  \<open>40.0\<close> and 20 potential green points, and answers with the store unchanged: no
  user's points or savings are written.
\<close>

theorem cart_impact_two_of_five:
  assumes cart: "cart_of d uid = Some cart"
    and eco: "length (filter (\<lambda>(item, product). p_isEcoFriendly product) cart) = 2"
    and non: "length (filter (\<lambda>(item, product). \<not> p_isEcoFriendly product) cart) = 3"
  shows "\<exists>r. get_cart_impact d uid = (Success 200 r, d)
           \<and> ecoFriendlyItems r = 2 \<and> totalItems r = 5
           \<and> ecoPercentage r = JStr ''40.0'' \<and> potentialGreenPoints r = 20"
proof -
  have len: "length cart = 5"
    using sum_length_filter_compl[of "\<lambda>(item, product). p_isEcoFriendly product" cart] eco non
    by (simp add: case_prod_unfold)
  obtain co2 plastic n where f: "fold impact_step cart (0, 0, 0) = (co2, plastic, n)"
    by (cases "fold impact_step cart (0, 0, 0)") auto
  from fold_impact_count[of cart 0 0 0] f eco have n: "n = 2" by simp
  have pct: "(of_nat n :: rat) / of_nat (length cart) * 100 = 40" using n len by simp
  show ?thesis
    unfolding get_cart_impact_def using cart f
    by (simp add: pct toFixed_40 len n)
qed

theorem cart_impact_two_of_five_witness:
  "\<exists>r. get_cart_impact ex_cart5 7 = (Success 200 r, ex_cart5)
      \<and> ecoFriendlyItems r = 2 \<and> totalItems r = 5
      \<and> ecoPercentage r = JStr ''40.0'' \<and> potentialGreenPoints r = 20"
proof -
  have c: "cart_of ex_cart5 7
     = Some (map (\<lambda>i. (\<lparr>ci_id = i, ci_userId = 7, ci_productId = i, ci_quantity = 1\<rparr>,
                        ex_A\<lparr>p_id := i, p_isEcoFriendly := (i \<le> 2)\<rparr>)) [1, 2, 3, 4, 5])"
    by (simp add: cart_of_def ex_cart5_def find_product_def ex_A_def)
  show ?thesis
    by (rule cart_impact_two_of_five[OF c]) simp_all
qed

section \<open>Checkout\<close>

lemma find_product_None_iff: "find_product ps pid = None \<longleftrightarrow> pid \<notin> p_id ` set ps"
  by (auto simp: find_product_def find_None_iff)

lemma purchased_Cons:
  "purchased ((item, product) # rest) pid
     = (if ci_productId item = pid then ci_quantity item else 0) + purchased rest pid"
  by (simp add: purchased_def)

lemma purchased_Nil: "purchased [] pid = 0"
  by (simp add: purchased_def)

lemma check_stock_ok:
  "\<forall>(item, product) \<in> set cart. ci_quantity item \<le> p_stock product \<Longrightarrow>
   check_stock cart t = Inr (t + sum_list (map line_total cart))"
  by (induction cart arbitrary: t) (auto simp: line_total_def)

lemma decrement_stock_Some:
  "pid \<in> p_id ` set ps \<Longrightarrow>
   decrement_stock pid q ps
     = Some (map (\<lambda>p. if p_id p = pid then p\<lparr>p_stock := p_stock p - q\<rparr> else p) ps)"
  by (simp add: decrement_stock_def find_product_None_iff)

lemma increment_stock_Some:
  "pid \<in> p_id ` set ps \<Longrightarrow>
   increment_stock pid q ps
     = Some (map (\<lambda>p. if p_id p = pid then p\<lparr>p_stock := p_stock p + q\<rparr> else p) ps)"
  by (simp add: increment_stock_def find_product_None_iff)

lemma ids_stock_update:
  "map p_id (map (\<lambda>p. if c p then p\<lparr>p_stock := f p\<rparr> else p) ps) = map p_id ps"
  by (induction ps) auto

lemma id_set_stock_update:
  "p_id ` set (map (\<lambda>p. if c p then p\<lparr>p_stock := f p\<rparr> else p) ps) = p_id ` set ps"
  using ids_stock_update[of c f ps] by (metis set_map)

lemma place_items_result:
  "\<forall>(item, product) \<in> set cart. ci_productId item \<in> p_id ` set (products d) \<Longrightarrow>
   place_items oid cart d
     = Some (d\<lparr>products := map (\<lambda>p. p\<lparr>p_stock := p_stock p - purchased cart (p_id p)\<rparr>) (products d),
              orderItems := orderItems d @ new_order_items oid (orderItemSeq d) cart,
              orderItemSeq := orderItemSeq d + int (length cart)\<rparr>)"
proof (induction cart arbitrary: d)
  case Nil
  then show ?case by (simp add: purchased_Nil)
next
  case (Cons x cart)
  obtain item product where x: "x = (item, product)" by (cases x)
  let ?d1 = "d\<lparr>orderItems := orderItems d @
                   [\<lparr>oi_id = orderItemSeq d, oi_orderId = oid, oi_productId = ci_productId item,
                     oi_quantity = ci_quantity item, oi_price = p_price product\<rparr>],
                 orderItemSeq := orderItemSeq d + 1\<rparr>"
  let ?ps = "map (\<lambda>p. if p_id p = ci_productId item
                        then p\<lparr>p_stock := p_stock p - ci_quantity item\<rparr> else p) (products d)"
  have mem: "ci_productId item \<in> p_id ` set (products d)" using Cons.prems x by simp
  have ids: "p_id ` set ?ps = p_id ` set (products d)" by (rule id_set_stock_update)
  have rest: "\<forall>(item, product) \<in> set cart. ci_productId item \<in> p_id ` set (products (?d1\<lparr>products := ?ps\<rparr>))"
    using Cons.prems ids by simp
  have dec: "decrement_stock (ci_productId item) (ci_quantity item) (products ?d1) = Some ?ps"
    using decrement_stock_Some[OF mem] by simp
  have step: "place_items oid (x # cart) d = place_items oid cart (?d1\<lparr>products := ?ps\<rparr>)"
    unfolding x using dec by (simp add: Let_def)
  have "place_items oid (x # cart) d = place_items oid cart (?d1\<lparr>products := ?ps\<rparr>)"
    by (rule step)
  also note Cons.IH[OF rest]
  finally show ?case
    by (simp add: x purchased_Cons o_def algebra_simps cong: if_cong)
qed

lemma include_product_Some:
  "include_product key ps xs = Some r \<Longrightarrow>
   map fst r = xs \<and> (\<forall>(x, p) \<in> set r. find_product ps (key x) = Some p)"
  by (induction xs arbitrary: r) (auto split: option.splits)

lemma cart_of_lines:
  assumes "cart_of d uid = Some cart"
  shows "map fst cart = filter (\<lambda>ci. ci_userId ci = uid) (cartItems d)"
    and "\<forall>(item, product) \<in> set cart. find_product (products d) (ci_productId item) = Some product"
    and "\<forall>(item, product) \<in> set cart. ci_productId item \<in> p_id ` set (products d)"
proof -
  from include_product_Some[OF assms[unfolded cart_of_def]]
  show a: "map fst cart = filter (\<lambda>ci. ci_userId ci = uid) (cartItems d)"
    and b: "\<forall>(item, product) \<in> set cart. find_product (products d) (ci_productId item) = Some product"
    by auto
  show "\<forall>(item, product) \<in> set cart. ci_productId item \<in> p_id ` set (products d)"
  proof clarify
    fix item product assume "(item, product) \<in> set cart"
    with b have "find_product (products d) (ci_productId item) = Some product" by auto
    from find_product_Some[OF this] show "ci_productId item \<in> p_id ` set (products d)"
      by (metis imageI)
  qed
qed

lemma new_order_items_props:
  "\<forall>oi \<in> set (new_order_items oid n cart).
      oi_orderId oi = oid \<and> oi_productId oi \<in> (\<lambda>(item, product). ci_productId item) ` set cart"
  by (induction oid n cart rule: new_order_items.induct) auto

lemma find_append_new:
  "P x \<Longrightarrow> \<exists>y. find P (xs @ [x]) = Some y"
  by (induction xs) auto

lemma post_orders_success:
  assumes refs: "refs_ok d"
    and cart: "cart_of d uid = Some cart"
    and ne: "cart \<noteq> []"
    and enough: "\<forall>(item, product) \<in> set cart. ci_quantity item \<le> p_stock product"
  shows "\<exists>v. post_orders d uid = (Success 201 (Some v), after_checkout d uid cart)
           \<and> o_id (fst v) = orderSeq d"
proof -
  let ?new = "\<lparr>o_id = orderSeq d, o_userId = uid, o_total = sum_list (map line_total cart),
               o_status = ''pending''\<rparr>"
  let ?d0 = "d\<lparr>orders := orders d @ [?new], orderSeq := orderSeq d + 1\<rparr>"
  let ?d2 = "after_checkout d uid cart"
  have cs: "check_stock cart 0 = Inr (sum_list (map line_total cart))"
    using check_stock_ok[OF enough, of 0] by simp
  have ids: "\<forall>(item, product) \<in> set cart. ci_productId item \<in> p_id ` set (products ?d0)"
    using cart_of_lines(3)[OF cart] by simp
  have pl: "place_items (orderSeq d) cart ?d0
      = Some (?d0\<lparr>products := map (\<lambda>p. p\<lparr>p_stock := p_stock p - purchased cart (p_id p)\<rparr>) (products ?d0),
              orderItems := orderItems ?d0 @ new_order_items (orderSeq d) (orderItemSeq ?d0) cart,
              orderItemSeq := orderItemSeq ?d0 + int (length cart)\<rparr>)"
    by (rule place_items_result[OF ids])
  obtain ord where f: "find (\<lambda>ord. o_id ord = orderSeq d) (orders ?d2) = Some ord"
    using find_append_new[of "\<lambda>ord. o_id ord = orderSeq d" ?new "orders d"]
    by (auto simp: after_checkout_def)
  have pids: "p_id ` set (products ?d2) = p_id ` set (products d)"
    by (simp add: after_checkout_def image_image)
  have "\<forall>oi \<in> set (orderItems ?d2). oi_productId oi \<in> p_id ` set (products ?d2)"
  proof
    fix oi assume "oi \<in> set (orderItems ?d2)"
    then consider "oi \<in> set (orderItems d)"
      | "oi \<in> set (new_order_items (orderSeq d) (orderItemSeq d) cart)"
      by (auto simp: after_checkout_def)
    then show "oi_productId oi \<in> p_id ` set (products ?d2)"
    proof cases
      case 1
      with refs show ?thesis unfolding pids by (simp add: refs_ok_def find_product_None_iff)
    next
      case 2
      with new_order_items_props[of "orderSeq d" "orderItemSeq d" cart] cart_of_lines(3)[OF cart]
      show ?thesis unfolding pids by fastforce
    qed
  qed
  then have "\<forall>oi \<in> set (order_items_of ?d2 (o_id ord)).
      find_product (products ?d2) (oi_productId oi) \<noteq> None"
    by (simp add: order_items_of_def find_product_None_iff)
  from include_product_total[OF this]
  obtain v where v: "include_orderItems ?d2 ord = Some v" and fv: "fst v = ord"
    by (auto simp: include_orderItems_def)
  have oid: "o_id ord = orderSeq d" using find_Some_mem[OF f] by simp
  have d2: "?d0\<lparr>products := map (\<lambda>p. p\<lparr>p_stock := p_stock p - purchased cart (p_id p)\<rparr>) (products ?d0),
              orderItems := orderItems ?d0 @ new_order_items (orderSeq d) (orderItemSeq ?d0) cart,
              orderItemSeq := orderItemSeq ?d0 + int (length cart),
              cartItems := filter (\<lambda>ci. ci_userId ci \<noteq> uid) (cartItems d)\<rparr> = ?d2"
    by (simp add: after_checkout_def)
  have "post_orders d uid = (Success 201 (Some v), ?d2)"
    unfolding post_orders_def using cart ne cs pl f v d2
    by (simp add: Let_def)
  with fv oid show ?thesis by blast
qed





section \<open>Cancelling a fresh order\<close>

lemma check_stock_Inr:
  "check_stock cart t = Inr t' \<Longrightarrow>
   \<forall>(item, product) \<in> set cart. ci_quantity item \<le> p_stock product"
proof (induction cart arbitrary: t)
  case Nil then show ?case by simp
next
  case (Cons x cart)
  obtain item product where x: "x = (item, product)" by (cases x)
  from Cons.prems x have ok: "ci_quantity item \<le> p_stock product"
    and r: "check_stock cart (t + p_price product * of_int (ci_quantity item)) = Inr t'"
    by (auto split: if_splits)
  from Cons.IH[OF r] ok x show ?case by simp
qed

lemma post_orders_inv:
  assumes "post_orders d uid = (Success 201 v, d1)"
  shows "\<exists>cart. cart_of d uid = Some cart \<and> cart \<noteq> []
           \<and> (\<forall>(item, product) \<in> set cart. ci_quantity item \<le> p_stock product)"
proof (cases "cart_of d uid")
  case None
  with assms show ?thesis by (simp add: post_orders_def)
next
  case (Some cart)
  show ?thesis
  proof (cases "check_stock cart 0")
    case (Inl nm)
    with assms Some show ?thesis by (simp add: post_orders_def split: if_splits)
  next
    case (Inr tot)
    from assms Some have "cart \<noteq> []" by (auto simp: post_orders_def)
    with check_stock_Inr[OF Inr] Some show ?thesis by blast
  qed
qed

lemma restore_stock_result:
  "\<forall>(item, product) \<in> set cart. ci_productId item \<in> p_id ` set ps \<Longrightarrow>
   restore_stock (new_order_items oid n cart) ps
     = Some (map (\<lambda>p. p\<lparr>p_stock := p_stock p + purchased cart (p_id p)\<rparr>) ps)"
proof (induction cart arbitrary: n ps)
  case Nil
  then show ?case by (simp add: purchased_Nil)
next
  case (Cons x cart)
  obtain item product where x: "x = (item, product)" by (cases x)
  let ?ps = "map (\<lambda>p. if p_id p = ci_productId item
                        then p\<lparr>p_stock := p_stock p + ci_quantity item\<rparr> else p) ps"
  have mem: "ci_productId item \<in> p_id ` set ps" using Cons.prems x by simp
  have ids: "p_id ` set ?ps = p_id ` set ps" by (rule id_set_stock_update)
  have rest: "\<forall>(item, product) \<in> set cart. ci_productId item \<in> p_id ` set ?ps"
    using Cons.prems ids by simp
  have "restore_stock (new_order_items oid n (x # cart)) ps
      = restore_stock (new_order_items oid (n + 1) cart) ?ps"
    unfolding x using increment_stock_Some[OF mem] by simp
  also note Cons.IH[OF rest]
  finally show ?case
    by (simp add: x purchased_Cons o_def algebra_simps cong: if_cong)
qed

lemma find_append_fresh:
  "\<forall>y \<in> set xs. \<not> P y \<Longrightarrow> P x \<Longrightarrow> find P (xs @ [x]) = Some x"
  by (induction xs) auto

lemma filter_append_fresh:
  "\<forall>y \<in> set xs. \<not> P y \<Longrightarrow> \<forall>y \<in> set ys. P y \<Longrightarrow> filter P (xs @ ys) = ys"
  by (simp add: filter_empty_conv filter_id_conv)

lemma filter_append_stale:
  "\<forall>y \<in> set xs. P y \<Longrightarrow> \<forall>y \<in> set ys. \<not> P y \<Longrightarrow> filter P (xs @ ys) = xs"
  by (simp add: filter_empty_conv filter_id_conv)

text \<open>
  Claim C3. In a well-formed store, when checkout has succeeded, cancelling the order
  it returned right away succeeds, puts every product back to what it was before the
  checkout (so every stock has its former value), and removes the order and its items:
  orders and order items are those of before, and reading the order is answered 404.
\<close>

theorem cancel_undoes_checkout:
  assumes wf: "wf_db d"
    and placed: "post_orders d uid = (Success 201 (Some (ord, its)), d1)"
  shows "\<exists>d2. delete_order d1 uid (o_id ord) = (Success 200 ''Order cancelled successfully'', d2)
           \<and> products d2 = products d
           \<and> orders d2 = orders d
           \<and> orderItems d2 = orderItems d
           \<and> get_order d2 uid (o_id ord) = (Failure 404 ''Order not found'', d2)"
proof -
  from post_orders_inv[OF placed] obtain cart where cart: "cart_of d uid = Some cart"
    and ne: "cart \<noteq> []"
    and enough: "\<forall>(item, product) \<in> set cart. ci_quantity item \<le> p_stock product" by blast
  have refs: "refs_ok d" and keys: "keys_ok d" using wf by (simp_all add: wf_db_def)
  from post_orders_success[OF refs cart ne enough] placed
  have d1: "d1 = after_checkout d uid cart" and oid: "o_id ord = orderSeq d" by auto
  let ?new = "\<lparr>o_id = orderSeq d, o_userId = uid, o_total = sum_list (map line_total cart),
               o_status = ''pending''\<rparr>"
  let ?items = "new_order_items (orderSeq d) (orderItemSeq d) cart"
  have old_orders: "\<forall>o' \<in> set (orders d). o_id o' \<noteq> orderSeq d"
    using keys by (auto simp: keys_ok_def)
  have old_items: "\<forall>oi \<in> set (orderItems d). oi_orderId oi \<noteq> orderSeq d"
    using refs old_orders by (auto simp: refs_ok_def)
  have new_items: "\<forall>oi \<in> set ?items. oi_orderId oi = orderSeq d"
    using new_order_items_props[of "orderSeq d" "orderItemSeq d" cart] by auto
  have f: "find (\<lambda>o'. o_id o' = orderSeq d \<and> o_userId o' = uid) (orders d1) = Some ?new"
    unfolding d1 using find_append_fresh[of "orders d" "\<lambda>o'. o_id o' = orderSeq d \<and> o_userId o' = uid" ?new]
      old_orders by (simp add: after_checkout_def)
  have its_eq: "order_items_of d1 (orderSeq d) = ?items"
    unfolding d1 order_items_of_def
    using filter_append_fresh[of "orderItems d" "\<lambda>oi. oi_orderId oi = orderSeq d" ?items]
      old_items new_items by (simp add: after_checkout_def)
  have ids: "\<forall>(item, product) \<in> set cart. ci_productId item \<in> p_id ` set (products d1)"
    unfolding d1 using cart_of_lines(3)[OF cart] by (simp add: after_checkout_def image_image)
  have "restore_stock ?items (products d1)
      = Some (map (\<lambda>p. p\<lparr>p_stock := p_stock p + purchased cart (p_id p)\<rparr>) (products d1))"
    by (rule restore_stock_result[OF ids])
  also have "map (\<lambda>p. p\<lparr>p_stock := p_stock p + purchased cart (p_id p)\<rparr>) (products d1)
      = products d"
    unfolding d1 by (simp add: after_checkout_def o_def)
  finally have restored: "restore_stock ?items (products d1) = Some (products d)" .
  have o2: "filter (\<lambda>o'. o_id o' \<noteq> orderSeq d) (orders d1) = orders d"
    unfolding d1
    using filter_append_stale[of "orders d" "\<lambda>o'. o_id o' \<noteq> orderSeq d" "[?new]"] old_orders
    by (simp add: after_checkout_def)
  have i2: "filter (\<lambda>oi. oi_orderId oi \<noteq> orderSeq d) (orderItems d1) = orderItems d"
    unfolding d1
    using filter_append_stale[of "orderItems d" "\<lambda>oi. oi_orderId oi \<noteq> orderSeq d" ?items]
      old_items new_items
    by (simp add: after_checkout_def)
  let ?d2 = "d1\<lparr>products := products d, orders := orders d, orderItems := orderItems d\<rparr>"
  have del: "delete_order d1 uid (orderSeq d) = (Success 200 ''Order cancelled successfully'', ?d2)"
    unfolding delete_order_def using f its_eq restored o2 i2 by simp
  have "find (\<lambda>o'. o_id o' = orderSeq d \<and> o_userId o' = uid) (orders ?d2) = None"
    using old_orders by (auto simp: find_None_iff)
  then have get: "get_order ?d2 uid (orderSeq d) = (Failure 404 ''Order not found'', ?d2)"
    by (simp add: get_order_def)
  show ?thesis unfolding oid using del get by simp
qed

theorem cancel_undoes_checkout_witness:
  "\<exists>ord its d1 d2. wf_db ex_db
     \<and> post_orders ex_db 7 = (Success 201 (Some (ord, its)), d1)
     \<and> map p_stock (products d1) = [2]
     \<and> delete_order d1 7 (o_id ord) = (Success 200 ''Order cancelled successfully'', d2)
     \<and> map p_stock (products d2) = [5]
     \<and> orders d2 = []
     \<and> get_order d2 7 (o_id ord) = (Failure 404 ''Order not found'', d2)"
proof -
  obtain ord its d1 where p: "post_orders ex_db 7 = (Success 201 (Some (ord, its)), d1)"
    and s1: "map p_stock (products d1) = [2]"
    by (simp add: post_orders_def cart_of_def ex_db_def find_product_def ex_A_def
        decrement_stock_def include_orderItems_def order_items_of_def Let_def)
  from cancel_undoes_checkout[OF wf_ex_db p]
  obtain d2 where "delete_order d1 7 (o_id ord) = (Success 200 ''Order cancelled successfully'', d2)"
    and "map p_stock (products d2) = [5]" and "orders d2 = []"
    and "get_order d2 7 (o_id ord) = (Failure 404 ''Order not found'', d2)"
    by (auto simp: ex_db_def ex_A_def)
  with p s1 wf_ex_db show ?thesis
    by (intro exI[of _ ord] exI[of _ its] exI[of _ d1] exI[of _ d2]) simp
qed

section \<open>Stock stays non-negative\<close>
















text \<open>What the guards of the cart routes leave of a quantity.\<close>

lemma guarded_number:
  assumes "toNumber (JNum r) = Some n" "\<not> js_less n (Finite 1)"
  shows "1 \<le> r"
  using assms by auto
































end
